theory Spec2Isabelle
  imports Main "HOL-Library.AList"
begin

section \<open>Values of the wrapped client library\<close>

text \<open>
  Modelled from the spec: \<^verbatim>\<open>hikari.ResponseType\<close>, the response-type tokens of the
  wrapped client library. The source names two of them, \<^verbatim>\<open>MESSAGE_CREATE\<close> and
  \<^verbatim>\<open>DEFERRED_MESSAGE_CREATE\<close>; every other token is \<open>OTHER_RESPONSE_TYPE n\<close>.
\<close>

datatype response_type = MESSAGE_CREATE | DEFERRED_MESSAGE_CREATE | OTHER_RESPONSE_TYPE nat

text \<open>
  Modelled from the spec: \<^verbatim>\<open>hikari.Message\<close>, a message created on the platform, known
  here only by its identity.
\<close>

datatype message = Message nat

text \<open>
  The Python values that travel through \<^verbatim>\<open>*args\<close> and \<^verbatim>\<open>**kwargs\<close> and that an option
  dictionary holds. A \<^verbatim>\<open>dict\<close> with string keys is the list of its items, in insertion
  order; \<open>PyObject n\<close> is any other object.
\<close>

datatype pyval =
    PyNone
  | PyStr string
  | PyInt int
  | PyBool bool
  | PyResponseType response_type
  | PyDict "(string \<times> pyval) list"
  | PyObject nat

text \<open>\<^verbatim>\<open>isinstance(v, hikari.ResponseType)\<close>\<close>

fun isinstance_ResponseType :: "pyval \<Rightarrow> bool" where
  "isinstance_ResponseType (PyResponseType t) = True"
| "isinstance_ResponseType v = False"

text \<open>Keyword arguments are a dictionary.\<close>

type_synonym dict = "(string \<times> pyval) list"

type_synonym kwargs = dict

text \<open>\<^verbatim>\<open>d.get(key)\<close>: the value stored under the key, \<^verbatim>\<open>None\<close> when there is none.\<close>

definition get :: "dict \<Rightarrow> string \<Rightarrow> pyval" where
  "get d key = (case map_of d key of Some v \<Rightarrow> v | None \<Rightarrow> PyNone)"

text \<open>\<^verbatim>\<open>d.pop(key, None)\<close>, the popped value dropped: the dictionary without the key.\<close>

definition pop :: "string \<Rightarrow> dict \<Rightarrow> dict" where
  "pop key d = AList.delete key d"

text \<open>\<^verbatim>\<open>d[key] = v\<close>: replaces the value in place, or appends the new key.\<close>

definition setitem :: "string \<Rightarrow> pyval \<Rightarrow> dict \<Rightarrow> dict" where
  "setitem key v d = AList.update key v d"

text \<open>\<^verbatim>\<open>d.setdefault(key, v)\<close>: stores \<open>v\<close> only when the key is not there yet.\<close>

definition setdefault :: "string \<Rightarrow> pyval \<Rightarrow> dict \<Rightarrow> dict" where
  "setdefault key v d = (if key \<in> fst ` set d then d else d @ [(key, v)])"

text \<open>The exceptions the source raises, and \<open>Platform_error n\<close> for any exception raised by
  a collaborator (the client library, a command body).\<close>

datatype exn =
    ValueError string
  | TypeError string
  | AssertionError
  | Platform_error nat


section \<open>OptionsProxy\<close>

record options_proxy =
  options_slot :: dict

definition OptionsProxy_init :: "dict \<Rightarrow> options_proxy" where
  "OptionsProxy_init options = \<lparr>options_slot = options\<rparr>"

text \<open>\<^verbatim>\<open>OptionsProxy.__getattr__\<close>\<close>

definition getattr :: "options_proxy \<Rightarrow> string \<Rightarrow> pyval" where
  "getattr self item = get (options_slot self) item"

text \<open>
  The attribute access \<^verbatim>\<open>proxy.item\<close>. Python calls \<^verbatim>\<open>__getattr__\<close> only for a name the
  normal lookup does not find. The normal lookup finds the instance attribute
  \<^verbatim>\<open>_options\<close> that \<^verbatim>\<open>__init__\<close> has set (\<^verbatim>\<open>__getattr__\<close> itself reads \<^verbatim>\<open>self._options\<close>
  this way, and gets the dictionary), and the names that the class and \<^verbatim>\<open>object\<close>
  define, such as \<^verbatim>\<open>__init__\<close>, \<^verbatim>\<open>__getattr__\<close> and \<^verbatim>\<open>__class__\<close>: these are the map
  \<open>class_attributes\<close>, a parameter, since most of them are the interpreter's.
\<close>

definition attribute_access :: "(string \<rightharpoonup> pyval) \<Rightarrow> options_proxy \<Rightarrow> string \<Rightarrow> pyval" where
  "attribute_access class_attributes self item =
     (if item = ''_options'' then PyDict (options_slot self)
      else case class_attributes item of
             Some v \<Rightarrow> v
           | None \<Rightarrow> getattr self item)"


section \<open>ResponseProxy\<close>

text \<open>
  A fetcher is a zero-argument asynchronous callable. The one the source builds is the
  bound method \<^verbatim>\<open>fetch_initial_response\<close> of the interaction; \<open>Fetcher n\<close> is any other.
\<close>

datatype fetcher = Fetch_initial_response | Fetcher nat

record response_proxy =
  message_slot :: "message option"
  fetcher_slot :: "fetcher option"

definition ResponseProxy_init :: "message option \<Rightarrow> fetcher option \<Rightarrow> exn + response_proxy" where
  "ResponseProxy_init message fetcher =
     (if message = None \<and> fetcher = None
      then Inl (ValueError ''One of message or fetcher arguments cannot be None'')
      else Inr \<lparr>message_slot = message, fetcher_slot = fetcher\<rparr>)"


section \<open>The world outside: commands, the platform, the event loop\<close>

record command =
  name :: string
  auto_defer :: bool

text \<open>The slots of \<^verbatim>\<open>Context\<close>. A response in the history is a reference to a
  \<^verbatim>\<open>ResponseProxy\<close> object on the heap.\<close>

type_synonym ref = nat

record base_context =
  app_slot :: nat
  responses_slot :: "ref list"

text \<open>
  The calls that leave this layer: the three operations of the command interaction (any
  fetcher call is \<open>Fetch\<close>) and the command's own \<^verbatim>\<open>invoke\<close>.
\<close>

datatype call =
    Create_initial_response kwargs
  | Execute "pyval list" kwargs
  | Fetch fetcher
  | Command_invoke command base_context

text \<open>
  The collaborators are a parameter: \<open>env log c\<close> is what the call \<open>c\<close> does after the
  calls \<open>log\<close> were made. \<open>Inl e\<close>: it raises \<open>e\<close>; \<open>Inr v\<close>: it returns \<open>v\<close>, a message or
  \<^verbatim>\<open>None\<close>.
\<close>

type_synonym platform = "call list \<Rightarrow> call \<Rightarrow> exn + message option"

text \<open>A coroutine handed to the event loop: \<^verbatim>\<open>self.respond(*args, **kwargs)\<close>.\<close>

datatype task = Respond_task "pyval list" kwargs

record world =
  heap :: "response_proxy list"
  calls :: "call list"
  tasks :: "task list"

text \<open>A new object gets the next free address.\<close>

definition alloc :: "response_proxy \<Rightarrow> world \<Rightarrow> ref \<times> world" where
  "alloc p w = (length (heap w), w\<lparr>heap := heap w @ [p]\<rparr>)"

text \<open>
  \<^verbatim>\<open>asyncio.create_task(coro)\<close>: the coroutine is queued on the running loop and returns
  at once; its body starts only when the loop gets control back.
\<close>

definition create_task :: "task \<Rightarrow> world \<Rightarrow> world" where
  "create_task t w = w\<lparr>tasks := tasks w @ [t]\<rparr>"

text \<open>
  \<^verbatim>\<open>ResponseProxy.message\<close>. No slot is assigned outside \<^verbatim>\<open>__init__\<close>, so the proxy is
  the same before and after; only the log of calls grows.
\<close>

definition message :: "platform \<Rightarrow> response_proxy \<Rightarrow> world \<Rightarrow> (exn + message option) \<times> world" where
  "message env self w =
     (case message_slot self of
        Some m \<Rightarrow> (Inr (Some m), w)
      | None \<Rightarrow>
          (case fetcher_slot self of
             None \<Rightarrow> (Inl AssertionError, w)
           | Some f \<Rightarrow> (env (calls w) (Fetch f), w\<lparr>calls := calls w @ [Fetch f]\<rparr>)))"


section \<open>Context\<close>

definition Context_init :: "nat \<Rightarrow> base_context" where
  "Context_init app = \<lparr>app_slot = app, responses_slot = []\<rparr>"

definition responses :: "'a base_context_scheme \<Rightarrow> ref list" where
  "responses self = responses_slot self"

definition previous_response :: "'a base_context_scheme \<Rightarrow> ref option" where
  "previous_response self =
     (if responses_slot self \<noteq> [] then Some (last (responses_slot self)) else None)"

text \<open>
  \<^verbatim>\<open>Context.invoke\<close>. The property \<^verbatim>\<open>command\<close> is abstract in \<^verbatim>\<open>Context\<close>: its value, as
  the concrete subtype gives it, is the argument \<open>command\<close>.
\<close>

definition invoke :: "platform \<Rightarrow> command option \<Rightarrow> base_context \<Rightarrow> world \<Rightarrow> (exn + unit) \<times> world" where
  "invoke env command self w =
     (case command of
        None \<Rightarrow> (Inl (TypeError ''This context cannot be invoked - no command was resolved.''), w)
      | Some c \<Rightarrow>
          (case env (calls w) (Command_invoke c self) of
             Inl e \<Rightarrow> (Inl e, w\<lparr>calls := calls w @ [Command_invoke c self]\<rparr>)
           | Inr v \<Rightarrow> (Inr (), w\<lparr>calls := calls w @ [Command_invoke c self]\<rparr>)))"


section \<open>ApplicationContext\<close>

record command_interaction =
  channel_id :: nat
  guild_id :: "nat option"
  command_id :: nat

text \<open>What an event carries: a command interaction, or an interaction of another kind.\<close>

datatype interaction = CommandInteraction command_interaction | OtherInteraction

record event =
  interaction :: interaction

record application_context = base_context +
  event_slot :: event
  interaction_slot :: command_interaction
  command_slot :: command

definition ApplicationContext_init ::
  "nat \<Rightarrow> event \<Rightarrow> command \<Rightarrow> world \<Rightarrow> (exn + application_context) \<times> world" where
  "ApplicationContext_init app event command w =
     (case interaction event of
        OtherInteraction \<Rightarrow> (Inl AssertionError, w)
      | CommandInteraction i \<Rightarrow>
          (let self = \<lparr>app_slot = app, responses_slot = [],
                       event_slot = event, interaction_slot = i, command_slot = command\<rparr>
           in if auto_defer (command_slot self)
              then (Inr self,
                    create_task (Respond_task [PyResponseType DEFERRED_MESSAGE_CREATE] []) w)
              else (Inr self, w)))"

definition invoked_with :: "application_context \<Rightarrow> string" where
  "invoked_with self = name (command_slot self)"

text \<open>\<^verbatim>\<open>ApplicationContext.respond\<close>. The result is the reference returned, or the
  exception raised; the context and the world are returned as the call leaves them.\<close>

definition respond ::
  "platform \<Rightarrow> pyval list \<Rightarrow> kwargs \<Rightarrow> application_context \<Rightarrow> world
     \<Rightarrow> (exn + ref) \<times> application_context \<times> world" where
  "respond env args kwargs self w =
     (let kwargs = pop ''reply'' kwargs;
          kwargs = pop ''mentions_reply'' kwargs;
          kwargs = pop ''nonce'' kwargs
      in if responses_slot self \<noteq> [] then
           (let kwargs = pop ''response_type'' kwargs;
                args = (if args \<noteq> [] \<and> isinstance_ResponseType (args ! 0)
                        then drop 1 args else args);
                w1 = w\<lparr>calls := calls w @ [Execute args kwargs]\<rparr>
            in case env (calls w) (Execute args kwargs) of
                 Inl e \<Rightarrow> (Inl e, self, w1)
               | Inr m \<Rightarrow>
                   (case ResponseProxy_init m None of
                      Inl e \<Rightarrow> (Inl e, self, w1)
                    | Inr p \<Rightarrow>
                        (let (r, w2) = alloc p w1;
                             self = self\<lparr>responses_slot := responses_slot self @ [r]\<rparr>
                         in (Inr (last (responses_slot self)), self, w2))))
         else
           (let kwargs =
                  (if args \<noteq> [] then
                     (if \<not> isinstance_ResponseType (args ! 0) then
                        (let kwargs = setitem ''content'' (args ! 0) kwargs
                         in setdefault ''response_type'' (PyResponseType MESSAGE_CREATE) kwargs)
                      else
                        (let kwargs = setitem ''response_type'' (args ! 0) kwargs
                         in if length args > 1
                            then setdefault ''content'' (args ! 1) kwargs else kwargs))
                   else kwargs);
                kwargs = pop ''attachment'' kwargs;
                kwargs = pop ''attachments'' kwargs;
                w1 = w\<lparr>calls := calls w @ [Create_initial_response kwargs]\<rparr>
            in case env (calls w) (Create_initial_response kwargs) of
                 Inl e \<Rightarrow> (Inl e, self, w1)
               | Inr v \<Rightarrow>
                   (case ResponseProxy_init None (Some Fetch_initial_response) of
                      Inl e \<Rightarrow> (Inl e, self, w1)
                    | Inr p \<Rightarrow>
                        (let (r, w2) = alloc p w1;
                             self = self\<lparr>responses_slot := responses_slot self @ [r]\<rparr>
                         in (Inr (last (responses_slot self)), self, w2)))))"

text \<open>Running a queued task: the coroutine body, on the context as it is by then.\<close>

fun run_task ::
  "platform \<Rightarrow> task \<Rightarrow> application_context \<Rightarrow> world \<Rightarrow> (exn + ref) \<times> application_context \<times> world" where
  "run_task env (Respond_task args kwargs) self w = respond env args kwargs self w"


section \<open>Example inputs\<close>

text \<open>A command, an event that carries a command interaction, a fresh world, and the
  context built from them.\<close>

definition example_command :: command where
  "example_command = \<lparr>name = ''ping'', auto_defer = False\<rparr>"

definition example_event :: event where
  "example_event =
     \<lparr>interaction = CommandInteraction \<lparr>channel_id = 1, guild_id = None, command_id = 2\<rparr>\<rparr>"

definition empty_world :: world where
  "empty_world = \<lparr>heap = [], calls = [], tasks = []\<rparr>"

definition fresh_context :: application_context where
  "fresh_context =
     \<lparr>app_slot = 0, responses_slot = [], event_slot = example_event,
      interaction_slot = \<lparr>channel_id = 1, guild_id = None, command_id = 2\<rparr>,
      command_slot = example_command\<rparr>"

text \<open>A platform on which every call succeeds: a call that creates or fetches a message
  returns a new one each time, numbered by the calls made so far.\<close>

definition accepting_platform :: platform where
  "accepting_platform log c =
     (case c of
        Create_initial_response kw \<Rightarrow> Inr None
      | Execute a kw \<Rightarrow> Inr (Some (Message (length log)))
      | Fetch f \<Rightarrow> Inr (Some (Message (length log)))
      | Command_invoke cmd ctx \<Rightarrow> Inr None)"

text \<open>A platform on which every call is refused.\<close>

definition refusing_platform :: platform where
  "refusing_platform log c = Inl (Platform_error 403)"

text \<open>The same context and world after a first \<^verbatim>\<open>respond("hello")\<close> that the platform
  accepted.\<close>

definition answered_context :: application_context where
  "answered_context = fresh_context\<lparr>responses_slot := [0]\<rparr>"

definition answered_world :: world where
  "answered_world =
     \<lparr>heap = [\<lparr>message_slot = None, fetcher_slot = Some Fetch_initial_response\<rparr>],
      calls = [Create_initial_response
                 [(''content'', PyStr ''hello''),
                  (''response_type'', PyResponseType MESSAGE_CREATE)]],
      tasks = []\<rparr>"

text \<open>A command flagged auto-defer.\<close>

definition deferring_command :: command where
  "deferring_command = \<lparr>name = ''slow'', auto_defer = True\<rparr>"

text \<open>Names that the normal attribute lookup finds on an \<^verbatim>\<open>OptionsProxy\<close>: the two
  methods of the class body, and \<^verbatim>\<open>__class__\<close> of every object.\<close>

definition example_class_attributes :: "string \<rightharpoonup> pyval" where
  "example_class_attributes =
     map_of [(''__init__'', PyObject 1), (''__getattr__'', PyObject 2), (''__class__'', PyObject 3)]"

text \<open>
  The condition on the constructor as the specification words it: exactly one of the two
  arguments is supplied.
\<close>

definition spec_exactly_one_supplied :: "message option \<Rightarrow> fetcher option \<Rightarrow> bool" where
  "spec_exactly_one_supplied msg fetcher = ((msg \<noteq> None) \<noteq> (fetcher \<noteq> None))"


section \<open>Dictionaries\<close>

lemma map_of_pop: "map_of (pop k d) k' = (if k' = k then None else map_of d k')"
  by (simp add: pop_def delete_conv')

lemma key_in_iff: "k \<in> fst ` set d \<longleftrightarrow> map_of d k \<noteq> None"
  by (simp add: map_of_eq_None_iff)

lemma key_in_pop: "k' \<in> fst ` set (pop k d) \<longleftrightarrow> k' \<noteq> k \<and> k' \<in> fst ` set d"
  by (simp add: key_in_iff map_of_pop)

lemma map_of_setitem: "map_of (setitem k v d) k' = (if k' = k then Some v else map_of d k')"
  by (simp add: setitem_def update_conv')

lemma map_of_setdefault:
  "map_of (setdefault k v d) k' =
     (if k' = k then (case map_of d k of None \<Rightarrow> Some v | Some u \<Rightarrow> Some u) else map_of d k')"
proof (cases "k \<in> fst ` set d")
  case True
  then show ?thesis
    by (auto simp: setdefault_def key_in_iff)
next
  case False
  then have "map_of d k = None"
    by (simp add: key_in_iff)
  with False show ?thesis
    by (simp add: setdefault_def map_add_def split: option.splits)
qed


section \<open>The two paths of respond\<close>

text \<open>With a response in the history, \<open>respond\<close> is the follow-up path.\<close>

lemma respond_followup_unfold:
  assumes "responses_slot self \<noteq> []"
  shows "respond env args kwargs self w =
    (let kw = pop ''response_type'' (pop ''nonce'' (pop ''mentions_reply'' (pop ''reply'' kwargs)));
         a = (if args \<noteq> [] \<and> isinstance_ResponseType (args ! 0) then drop 1 args else args);
         w1 = w\<lparr>calls := calls w @ [Execute a kw]\<rparr>
     in case env (calls w) (Execute a kw) of
          Inl e \<Rightarrow> (Inl e, self, w1)
        | Inr None \<Rightarrow>
            (Inl (ValueError ''One of message or fetcher arguments cannot be None''), self, w1)
        | Inr (Some m) \<Rightarrow>
            (Inr (length (heap w)),
             self\<lparr>responses_slot := responses_slot self @ [length (heap w)]\<rparr>,
             w1\<lparr>heap := heap w @ [\<lparr>message_slot = Some m, fetcher_slot = None\<rparr>]\<rparr>))"
  using assms
  by (simp add: respond_def Let_def alloc_def ResponseProxy_init_def
           split: sum.splits option.splits)

text \<open>With an empty history, it is the initial-response path.\<close>

lemma respond_initial_unfold:
  assumes "responses_slot self = []"
  shows "respond env args kwargs self w =
    (let kw0 = pop ''nonce'' (pop ''mentions_reply'' (pop ''reply'' kwargs));
         kw1 = (if args \<noteq> [] then
                  (if \<not> isinstance_ResponseType (args ! 0)
                   then setdefault ''response_type'' (PyResponseType MESSAGE_CREATE)
                          (setitem ''content'' (args ! 0) kw0)
                   else if length args > 1
                        then setdefault ''content'' (args ! 1)
                               (setitem ''response_type'' (args ! 0) kw0)
                        else setitem ''response_type'' (args ! 0) kw0)
                else kw0);
         kw = pop ''attachments'' (pop ''attachment'' kw1);
         w1 = w\<lparr>calls := calls w @ [Create_initial_response kw]\<rparr>
     in case env (calls w) (Create_initial_response kw) of
          Inl e \<Rightarrow> (Inl e, self, w1)
        | Inr v \<Rightarrow>
            (Inr (length (heap w)),
             self\<lparr>responses_slot := [length (heap w)]\<rparr>,
             w1\<lparr>heap := heap w @
                 [\<lparr>message_slot = None, fetcher_slot = Some Fetch_initial_response\<rparr>]\<rparr>))"
  using assms
  by (simp add: respond_def Let_def alloc_def ResponseProxy_init_def
           split: sum.splits option.splits)


section \<open>OptionsProxy: attribute access\<close>

text \<open>
  C5 does not hold as stated: the attribute \<^verbatim>\<open>_options\<close> of a proxy is the option
  dictionary itself. For the options \<^verbatim>\<open>{"_options": "x"}\<close> the access \<^verbatim>\<open>proxy._options\<close>
  yields that dictionary, not the value \<^verbatim>\<open>"x"\<close> stored under the key.
\<close>

theorem attribute_access_own_slot:
  "attribute_access example_class_attributes
       (OptionsProxy_init [(''_options'', PyStr ''x'')]) ''_options''
     = PyDict [(''_options'', PyStr ''x'')]
   \<and> map_of [(''_options'', PyStr ''x'')] ''_options'' = Some (PyStr ''x'')
   \<and> PyDict [(''_options'', PyStr ''x'')] \<noteq> PyStr ''x''"
  by (simp add: attribute_access_def OptionsProxy_init_def)

text \<open>
  C5, amended: for every mapping \<open>M\<close> and every name that the normal attribute lookup does
  not find (it is not \<^verbatim>\<open>_options\<close> and not a name of the class), attribute access on
  \<^verbatim>\<open>OptionsProxy(M)\<close> yields a value in every case: \<open>M[item]\<close> when the name is a key of
  \<open>M\<close>, and \<^verbatim>\<open>None\<close> when it is not.
\<close>

theorem attribute_access_option:
  assumes "item \<noteq> ''_options''" and "class_attributes item = None"
  shows "attribute_access class_attributes (OptionsProxy_init M) item
           = (case map_of M item of Some v \<Rightarrow> v | None \<Rightarrow> PyNone)"
  using assms by (simp add: attribute_access_def OptionsProxy_init_def getattr_def get_def)

theorem attribute_access_option_witness:
  "''colour'' \<noteq> ''_options'' \<and> example_class_attributes ''colour'' = None
   \<and> ''size'' \<noteq> ''_options'' \<and> example_class_attributes ''size'' = None
   \<and> attribute_access example_class_attributes
         (OptionsProxy_init [(''colour'', PyStr ''red'')]) ''colour'' = PyStr ''red''
   \<and> attribute_access example_class_attributes
         (OptionsProxy_init [(''colour'', PyStr ''red'')]) ''size'' = PyNone"
proof -
  have c1: "''colour'' \<noteq> ''_options''" and s1: "''size'' \<noteq> ''_options''"
    by simp_all
  have c2: "example_class_attributes ''colour'' = None"
    and s2: "example_class_attributes ''size'' = None"
    by (simp_all add: example_class_attributes_def)
  show ?thesis
    using c1 c2 s1 s2
      attribute_access_option [where item = "''colour''"
        and class_attributes = example_class_attributes
        and M = "[(''colour'', PyStr ''red'')]", OF c1 c2]
      attribute_access_option [where item = "''size''"
        and class_attributes = example_class_attributes
        and M = "[(''colour'', PyStr ''red'')]", OF s1 s2]
    by simp
qed


section \<open>ResponseProxy: construction and message\<close>

text \<open>
  C3 does not hold as stated: construction with both a message and a fetcher succeeds,
  although not exactly one of the two is supplied.
\<close>

theorem ResponseProxy_init_both_supplied:
  "ResponseProxy_init (Some (Message 1)) (Some Fetch_initial_response)
     = Inr \<lparr>message_slot = Some (Message 1), fetcher_slot = Some Fetch_initial_response\<rparr>
   \<and> \<not> spec_exactly_one_supplied (Some (Message 1)) (Some Fetch_initial_response)"
  by (simp add: ResponseProxy_init_def spec_exactly_one_supplied_def)

text \<open>
  C3, amended: constructing a ResponseProxy succeeds if and only if at least one of the
  message and fetcher arguments is supplied, and the proxy then holds both arguments as
  given; construction with both absent fails with the invalid-argument error
  (\<^verbatim>\<open>ValueError\<close>), and only then.
\<close>

theorem ResponseProxy_init_succeeds_iff:
  "((\<exists>p. ResponseProxy_init msg fetcher = Inr p) \<longleftrightarrow> msg \<noteq> None \<or> fetcher \<noteq> None)
   \<and> ((\<exists>s. ResponseProxy_init msg fetcher = Inl (ValueError s))
        \<longleftrightarrow> msg = None \<and> fetcher = None)
   \<and> (\<forall>p. ResponseProxy_init msg fetcher = Inr p
          \<longrightarrow> message_slot p = msg \<and> fetcher_slot p = fetcher)"
  by (auto simp: ResponseProxy_init_def)

theorem ResponseProxy_init_succeeds_iff_witness:
  "(\<exists>p. ResponseProxy_init (Some (Message 1)) None = Inr p)
   \<and> (\<exists>p. ResponseProxy_init None (Some (Fetcher 0)) = Inr p)
   \<and> (\<exists>p. ResponseProxy_init (Some (Message 1)) (Some (Fetcher 0)) = Inr p)
   \<and> (\<exists>s. ResponseProxy_init None None = Inl (ValueError s))"
  using ResponseProxy_init_succeeds_iff [of "Some (Message 1)" None]
        ResponseProxy_init_succeeds_iff [of None "Some (Fetcher 0)"]
        ResponseProxy_init_succeeds_iff [of "Some (Message 1)" "Some (Fetcher 0)"]
        ResponseProxy_init_succeeds_iff [of None None]
  by simp

text \<open>
  C6: a ResponseProxy constructed with a known message \<open>m\<close>, with or without a fetcher,
  exists, and every call of \<open>message\<close> on it, on any platform and in any world, returns
  \<open>m\<close> and leaves the world as it was: no call is made, so no fetcher is invoked.
\<close>

theorem message_known:
  "\<exists>p. ResponseProxy_init (Some m) fetcher = Inr p
       \<and> (\<forall>env w. message env p w = (Inr (Some m), w))"
  by (simp add: ResponseProxy_init_def message_def)

theorem message_known_witness:
  "message refusing_platform
       \<lparr>message_slot = Some (Message 5), fetcher_slot = Some (Fetcher 0)\<rparr> answered_world
     = (Inr (Some (Message 5)), answered_world)"
  using message_known [of "Message 5" "Some (Fetcher 0)"]
  by (simp add: ResponseProxy_init_def)

text \<open>
  C4 does not hold as stated: nothing is memoized. On a platform whose fetches return a
  new message each time, two calls of \<open>message\<close> on one fetcher-backed proxy invoke the
  fetcher twice, and the second call returns another message than the first.
\<close>

theorem message_not_memoized:
  "message accepting_platform
       \<lparr>message_slot = None, fetcher_slot = Some (Fetcher 0)\<rparr>
       \<lparr>heap = [], calls = [], tasks = []\<rparr>
     = (Inr (Some (Message 0)), \<lparr>heap = [], calls = [Fetch (Fetcher 0)], tasks = []\<rparr>)
   \<and> message accepting_platform
       \<lparr>message_slot = None, fetcher_slot = Some (Fetcher 0)\<rparr>
       \<lparr>heap = [], calls = [Fetch (Fetcher 0)], tasks = []\<rparr>
     = (Inr (Some (Message 1)),
        \<lparr>heap = [], calls = [Fetch (Fetcher 0), Fetch (Fetcher 0)], tasks = []\<rparr>)"
  by (simp add: message_def accepting_platform_def)

text \<open>
  C4, amended: for a ResponseProxy built from a fetcher alone, every call of \<open>message\<close>,
  whatever calls came before, invokes the fetcher exactly once and returns or raises what
  that invocation does; no result is kept, so the fetcher is invoked once for each call
  of \<open>message\<close>.
\<close>

theorem message_fetches_each_call:
  assumes "ResponseProxy_init None (Some f) = Inr p"
  shows "message env p w = (env (calls w) (Fetch f), w\<lparr>calls := calls w @ [Fetch f]\<rparr>)"
  using assms by (auto simp: ResponseProxy_init_def message_def)

theorem message_fetches_each_call_witness:
  "ResponseProxy_init None (Some (Fetcher 0))
     = Inr \<lparr>message_slot = None, fetcher_slot = Some (Fetcher 0)\<rparr>
   \<and> message accepting_platform
         \<lparr>message_slot = None, fetcher_slot = Some (Fetcher 0)\<rparr> empty_world
     = (Inr (Some (Message 0)), \<lparr>heap = [], calls = [Fetch (Fetcher 0)], tasks = []\<rparr>)"
proof -
  have h: "ResponseProxy_init None (Some (Fetcher 0))
             = Inr \<lparr>message_slot = None, fetcher_slot = Some (Fetcher 0)\<rparr>"
    by (simp add: ResponseProxy_init_def)
  show ?thesis
    using h message_fetches_each_call [OF h, of accepting_platform empty_world]
    by (simp add: accepting_platform_def empty_world_def)
qed


section \<open>Context: invoke\<close>

text \<open>
  C7: \<open>invoke\<close> on a context whose command is absent raises the \<^verbatim>\<open>TypeError\<close> and leaves
  the world as it was, so no command is dispatched; with a command \<open>c\<close> resolved, it makes
  exactly the call of \<open>c\<close>'s invoke on the context, and returns or raises as that call
  does.
\<close>

theorem invoke_dispatch:
  "invoke env None self w
     = (Inl (TypeError ''This context cannot be invoked - no command was resolved.''), w)
   \<and> fst (invoke env (Some c) self w)
       = (case env (calls w) (Command_invoke c self) of Inl e \<Rightarrow> Inl e | Inr v \<Rightarrow> Inr ())
   \<and> snd (invoke env (Some c) self w) = w\<lparr>calls := calls w @ [Command_invoke c self]\<rparr>"
  by (simp add: invoke_def split: sum.splits)

theorem invoke_dispatch_witness:
  "invoke accepting_platform None (Context_init 0) empty_world
     = (Inl (TypeError ''This context cannot be invoked - no command was resolved.''),
        empty_world)
   \<and> invoke accepting_platform (Some example_command) (Context_init 0) empty_world
     = (Inr (), \<lparr>heap = [], calls = [Command_invoke example_command (Context_init 0)],
                 tasks = []\<rparr>)"
  using invoke_dispatch [of accepting_platform "Context_init 0" empty_world example_command]
  by (simp add: prod_eq_iff accepting_platform_def empty_world_def)


section \<open>ApplicationContext: construction\<close>

text \<open>
  C8: constructing an ApplicationContext from an event that carries a command interaction
  succeeds with an empty history. When the command is flagged auto-defer, the constructor
  queues one task, \<^verbatim>\<open>respond(DEFERRED_MESSAGE_CREATE)\<close>, and returns without running it:
  it makes no call to the platform and creates no response. When the flag is not set, it
  queues nothing. The queued task, once the loop runs it on the new context, makes the
  initial response with the deferred response type and no content.
\<close>

theorem ApplicationContext_init_auto_defer:
  assumes "interaction event = CommandInteraction i"
  shows "\<exists>self w'. ApplicationContext_init app event command w = (Inr self, w')
          \<and> responses_slot self = [] \<and> command_slot self = command \<and> interaction_slot self = i
          \<and> calls w' = calls w \<and> heap w' = heap w
          \<and> tasks w' = (if auto_defer command
                         then tasks w @ [Respond_task [PyResponseType DEFERRED_MESSAGE_CREATE] []]
                         else tasks w)
          \<and> (\<forall>env. calls (snd (snd (run_task env
                        (Respond_task [PyResponseType DEFERRED_MESSAGE_CREATE] []) self w')))
                    = calls w @ [Create_initial_response
                                  [(''response_type'', PyResponseType DEFERRED_MESSAGE_CREATE)]])"
proof -
  define self where "self = \<lparr>app_slot = app, responses_slot = [],
                       event_slot = event, interaction_slot = i, command_slot = command\<rparr>"
  define w' where "w' = (if auto_defer command
      then create_task (Respond_task [PyResponseType DEFERRED_MESSAGE_CREATE] []) w else w)"
  have init: "ApplicationContext_init app event command w = (Inr self, w')"
    using assms by (simp add: ApplicationContext_init_def Let_def self_def w'_def)
  have empty: "responses_slot self = []"
    by (simp add: self_def)
  have same: "calls w' = calls w" "heap w' = heap w"
    by (simp_all add: w'_def create_task_def)
  have queued: "tasks w' = (if auto_defer command
                         then tasks w @ [Respond_task [PyResponseType DEFERRED_MESSAGE_CREATE] []]
                         else tasks w)"
    by (simp add: w'_def create_task_def)
  have run: "calls (snd (snd (run_task env
                        (Respond_task [PyResponseType DEFERRED_MESSAGE_CREATE] []) self w')))
                    = calls w @ [Create_initial_response
                                  [(''response_type'', PyResponseType DEFERRED_MESSAGE_CREATE)]]" for env
    by (simp add: respond_initial_unfold [OF empty] Let_def same pop_def setitem_def
             split: sum.splits)
  show ?thesis
    using init empty same queued run by (auto simp: self_def)
qed

theorem ApplicationContext_init_auto_defer_witness:
  "interaction example_event = CommandInteraction \<lparr>channel_id = 1, guild_id = None, command_id = 2\<rparr>
   \<and> ApplicationContext_init 0 example_event deferring_command empty_world
       = (Inr (fresh_context\<lparr>command_slot := deferring_command\<rparr>),
          \<lparr>heap = [], calls = [],
           tasks = [Respond_task [PyResponseType DEFERRED_MESSAGE_CREATE] []]\<rparr>)
   \<and> ApplicationContext_init 0 example_event example_command empty_world
       = (Inr fresh_context, empty_world)"
proof -
  have h: "interaction example_event
             = CommandInteraction \<lparr>channel_id = 1, guild_id = None, command_id = 2\<rparr>"
    by (simp add: example_event_def)
  show ?thesis
    using h
      ApplicationContext_init_auto_defer [OF h, of 0 deferring_command empty_world]
      ApplicationContext_init_auto_defer [OF h, of 0 example_command empty_world]
    by (simp add: ApplicationContext_init_def Let_def create_task_def example_event_def
          deferring_command_def example_command_def fresh_context_def empty_world_def)
qed


section \<open>ApplicationContext: respond\<close>

text \<open>Evaluating \<open>respond\<close> on the example inputs.\<close>

lemmas respond_eval =
  respond_def Let_def pop_def setitem_def setdefault_def alloc_def ResponseProxy_init_def
  fresh_context_def answered_context_def empty_world_def answered_world_def
  accepting_platform_def refusing_platform_def

text \<open>
  C1: on a context with an empty history, \<open>respond\<close> with a first positional argument
  \<open>c\<close> that is not a response-type token makes exactly one call,
  \<^verbatim>\<open>create_initial_response\<close>, whose keywords have \<^verbatim>\<open>content\<close> \<open>c\<close> and a
  \<^verbatim>\<open>response_type\<close> that is \<^verbatim>\<open>MESSAGE_CREATE\<close> unless the caller gave one by keyword. When
  the platform accepts the call, a new proxy with no message and the fetcher
  \<^verbatim>\<open>fetch_initial_response\<close> is appended, it is the one returned, and the history has
  length 1.
\<close>

theorem respond_first_call_content:
  assumes "responses_slot self = []"
      and "\<not> isinstance_ResponseType c"
      and "respond env (c # rest) kwargs self w = (res, self', w')"
  shows "\<exists>kw. calls w' = calls w @ [Create_initial_response kw]
           \<and> kw = pop ''attachments'' (pop ''attachment''
                    (setdefault ''response_type'' (PyResponseType MESSAGE_CREATE)
                      (setitem ''content'' c
                        (pop ''nonce'' (pop ''mentions_reply'' (pop ''reply'' kwargs))))))
           \<and> map_of kw ''content'' = Some c
           \<and> map_of kw ''response_type''
               = Some (case map_of kwargs ''response_type'' of
                         None \<Rightarrow> PyResponseType MESSAGE_CREATE
                       | Some t \<Rightarrow> t)
           \<and> (\<forall>v. env (calls w) (Create_initial_response kw) = Inr v \<longrightarrow>
                 res = Inr (length (heap w))
                 \<and> heap w' = heap w @ [\<lparr>message_slot = None, fetcher_slot = Some Fetch_initial_response\<rparr>]
                 \<and> heap w' ! length (heap w) = \<lparr>message_slot = None, fetcher_slot = Some Fetch_initial_response\<rparr>
                 \<and> responses_slot self' = [length (heap w)]
                 \<and> length (responses_slot self') = 1)"
proof -
  define kw where "kw = pop ''attachments'' (pop ''attachment''
                    (setdefault ''response_type'' (PyResponseType MESSAGE_CREATE)
                      (setitem ''content'' c
                        (pop ''nonce'' (pop ''mentions_reply'' (pop ''reply'' kwargs))))))"
  have content: "map_of kw ''content'' = Some c"
    by (simp add: kw_def map_of_pop map_of_setdefault map_of_setitem)
  have rtype: "map_of kw ''response_type''
               = Some (case map_of kwargs ''response_type'' of
                         None \<Rightarrow> PyResponseType MESSAGE_CREATE
                       | Some t \<Rightarrow> t)"
    by (simp add: kw_def map_of_pop map_of_setdefault map_of_setitem split: option.splits)
  have run: "respond env (c # rest) kwargs self w =
      (case env (calls w) (Create_initial_response kw) of
          Inl e \<Rightarrow> (Inl e, self, w\<lparr>calls := calls w @ [Create_initial_response kw]\<rparr>)
        | Inr v \<Rightarrow>
            (Inr (length (heap w)),
             self\<lparr>responses_slot := [length (heap w)]\<rparr>,
             w\<lparr>calls := calls w @ [Create_initial_response kw],
               heap := heap w @ [\<lparr>message_slot = None, fetcher_slot = Some Fetch_initial_response\<rparr>]\<rparr>))"
    unfolding kw_def using assms(1,2) by (simp add: respond_initial_unfold Let_def)
  have "calls w' = calls w @ [Create_initial_response kw]"
    using assms(3) unfolding run by (auto split: sum.splits)
  moreover have "\<forall>v. env (calls w) (Create_initial_response kw) = Inr v \<longrightarrow>
                 res = Inr (length (heap w))
                 \<and> heap w' = heap w @ [\<lparr>message_slot = None, fetcher_slot = Some Fetch_initial_response\<rparr>]
                 \<and> heap w' ! length (heap w) = \<lparr>message_slot = None, fetcher_slot = Some Fetch_initial_response\<rparr>
                 \<and> responses_slot self' = [length (heap w)]
                 \<and> length (responses_slot self') = 1"
    using assms(3) unfolding run by (auto split: sum.splits)
  ultimately show ?thesis
    using content rtype kw_def by blast
qed

theorem respond_first_call_content_witness:
  "responses_slot fresh_context = []
   \<and> \<not> isinstance_ResponseType (PyStr ''hello'')
   \<and> respond accepting_platform [PyStr ''hello''] [] fresh_context empty_world
       = (Inr 0, answered_context, answered_world)
   \<and> heap answered_world ! 0 = \<lparr>message_slot = None, fetcher_slot = Some Fetch_initial_response\<rparr>
   \<and> length (responses_slot answered_context) = 1"
proof -
  have h1: "responses_slot fresh_context = []"
    by (simp add: fresh_context_def)
  have h2: "\<not> isinstance_ResponseType (PyStr ''hello'')"
    by simp
  have h3: "respond accepting_platform [PyStr ''hello''] [] fresh_context empty_world
              = (Inr 0, answered_context, answered_world)"
    by (simp add: respond_eval)
  show ?thesis
    using h1 h2 h3 respond_first_call_content [OF h1 h2 h3]
    by (simp add: answered_world_def answered_context_def)
qed

text \<open>
  C2: on a context with a non-empty history, \<open>respond\<close> makes exactly one call,
  \<^verbatim>\<open>execute\<close>, with the positional arguments less a leading response-type token and the
  keywords less \<^verbatim>\<open>response_type\<close> (and the reply keywords). When \<^verbatim>\<open>execute\<close> returns a
  message \<open>m\<close>, a new proxy that holds \<open>m\<close> and no fetcher is appended, it is the one
  returned, the history is one longer, and \<open>previous_response\<close> is that proxy.
\<close>

theorem respond_followup_execute:
  assumes "responses_slot self \<noteq> []"
      and "respond env args kwargs self w = (res, self', w')"
  shows "\<exists>a kw. calls w' = calls w @ [Execute a kw]
           \<and> a = (if args \<noteq> [] \<and> isinstance_ResponseType (args ! 0) then drop 1 args else args)
           \<and> kw = pop ''response_type''
                    (pop ''nonce'' (pop ''mentions_reply'' (pop ''reply'' kwargs)))
           \<and> map_of kw ''response_type'' = None
           \<and> (\<forall>m. env (calls w) (Execute a kw) = Inr (Some m) \<longrightarrow>
                 res = Inr (length (heap w))
                 \<and> heap w' = heap w @ [\<lparr>message_slot = Some m, fetcher_slot = None\<rparr>]
                 \<and> heap w' ! length (heap w) = \<lparr>message_slot = Some m, fetcher_slot = None\<rparr>
                 \<and> responses_slot self' = responses_slot self @ [length (heap w)]
                 \<and> length (responses_slot self') = length (responses_slot self) + 1
                 \<and> previous_response self' = Some (length (heap w)))"
proof -
  define kw where "kw = pop ''response_type''
                    (pop ''nonce'' (pop ''mentions_reply'' (pop ''reply'' kwargs)))"
  define a where "a = (if args \<noteq> [] \<and> isinstance_ResponseType (args ! 0) then drop 1 args else args)"
  have stripped: "map_of kw ''response_type'' = None"
    by (simp add: kw_def map_of_pop)
  have run: "respond env args kwargs self w =
      (case env (calls w) (Execute a kw) of
          Inl e \<Rightarrow> (Inl e, self, w\<lparr>calls := calls w @ [Execute a kw]\<rparr>)
        | Inr None \<Rightarrow>
            (Inl (ValueError ''One of message or fetcher arguments cannot be None''), self,
             w\<lparr>calls := calls w @ [Execute a kw]\<rparr>)
        | Inr (Some m) \<Rightarrow>
            (Inr (length (heap w)),
             self\<lparr>responses_slot := responses_slot self @ [length (heap w)]\<rparr>,
             w\<lparr>calls := calls w @ [Execute a kw],
               heap := heap w @ [\<lparr>message_slot = Some m, fetcher_slot = None\<rparr>]\<rparr>))"
    unfolding kw_def a_def using assms(1) by (simp add: respond_followup_unfold Let_def)
  have "calls w' = calls w @ [Execute a kw]"
    using assms(2) unfolding run by (auto split: sum.splits option.splits)
  moreover have "\<forall>m. env (calls w) (Execute a kw) = Inr (Some m) \<longrightarrow>
                 res = Inr (length (heap w))
                 \<and> heap w' = heap w @ [\<lparr>message_slot = Some m, fetcher_slot = None\<rparr>]
                 \<and> heap w' ! length (heap w) = \<lparr>message_slot = Some m, fetcher_slot = None\<rparr>
                 \<and> responses_slot self' = responses_slot self @ [length (heap w)]
                 \<and> length (responses_slot self') = length (responses_slot self) + 1
                 \<and> previous_response self' = Some (length (heap w))"
    using assms(2) unfolding run by (auto simp: previous_response_def split: sum.splits option.splits)
  ultimately show ?thesis
    using stripped kw_def a_def by blast
qed

theorem respond_followup_execute_witness:
  "responses_slot answered_context \<noteq> []
   \<and> respond accepting_platform [PyStr ''world''] [] answered_context answered_world
       = (Inr 1,
          answered_context\<lparr>responses_slot := [0, 1]\<rparr>,
          answered_world
            \<lparr>heap := heap answered_world @ [\<lparr>message_slot = Some (Message 1), fetcher_slot = None\<rparr>],
             calls := calls answered_world @ [Execute [PyStr ''world''] []]\<rparr>)
   \<and> previous_response (answered_context\<lparr>responses_slot := [0, 1]\<rparr>) = Some 1"
proof -
  have h1: "responses_slot answered_context \<noteq> []"
    by (simp add: answered_context_def)
  have h2: "respond accepting_platform [PyStr ''world''] [] answered_context answered_world
       = (Inr 1,
          answered_context\<lparr>responses_slot := [0, 1]\<rparr>,
          answered_world
            \<lparr>heap := heap answered_world @ [\<lparr>message_slot = Some (Message 1), fetcher_slot = None\<rparr>],
             calls := calls answered_world @ [Execute [PyStr ''world''] []]\<rparr>)"
    by (simp add: respond_eval)
  show ?thesis
    using h1 h2 respond_followup_execute [OF h1 h2]
    by (simp add: previous_response_def)
qed

text \<open>
  C9: \<open>respond\<close> makes exactly one platform call, \<^verbatim>\<open>create_initial_response\<close> on an
  empty history and \<^verbatim>\<open>execute\<close> otherwise. If that call raises \<open>e\<close>, then \<open>respond\<close>
  raises the same \<open>e\<close>, and the context, its history and the heap of proxies are as they
  were: no ResponseProxy is appended.
\<close>

theorem respond_platform_failure:
  assumes "respond env args kwargs self w = (res, self', w')"
  shows "\<exists>c. calls w' = calls w @ [c]
           \<and> (if responses_slot self = [] then (\<exists>kw. c = Create_initial_response kw)
               else (\<exists>a kw. c = Execute a kw))
           \<and> (\<forall>e. env (calls w) c = Inl e \<longrightarrow>
                 res = Inl e \<and> self' = self \<and> responses_slot self' = responses_slot self
                 \<and> heap w' = heap w)"
proof (cases "responses_slot self = []")
  case True
  show ?thesis
    using assms True
    by (auto simp: respond_initial_unfold [OF True] Let_def split: sum.splits)
next
  case False
  show ?thesis
    using assms False
    by (auto simp: respond_followup_unfold [OF False] Let_def split: sum.splits option.splits)
qed

theorem respond_platform_failure_witness:
  "respond refusing_platform [PyStr ''hello''] [] fresh_context empty_world
     = (Inl (Platform_error 403), fresh_context,
        \<lparr>heap = [],
         calls = [Create_initial_response
                    [(''content'', PyStr ''hello''),
                     (''response_type'', PyResponseType MESSAGE_CREATE)]],
         tasks = []\<rparr>)
   \<and> respond refusing_platform [PyStr ''world''] [] answered_context answered_world
     = (Inl (Platform_error 403), answered_context,
        answered_world\<lparr>calls := calls answered_world @ [Execute [PyStr ''world''] []]\<rparr>)"
proof -
  have h1: "respond refusing_platform [PyStr ''hello''] [] fresh_context empty_world
     = (Inl (Platform_error 403), fresh_context,
        \<lparr>heap = [],
         calls = [Create_initial_response
                    [(''content'', PyStr ''hello''),
                     (''response_type'', PyResponseType MESSAGE_CREATE)]],
         tasks = []\<rparr>)"
    by (simp add: respond_eval)
  have h2: "respond refusing_platform [PyStr ''world''] [] answered_context answered_world
     = (Inl (Platform_error 403), answered_context,
        answered_world\<lparr>calls := calls answered_world @ [Execute [PyStr ''world''] []]\<rparr>)"
    by (simp add: respond_eval)
  show ?thesis
    using h1 h2 respond_platform_failure [OF h1] respond_platform_failure [OF h2]
    by simp
qed

text \<open>
  C10: on a context with an empty history, \<open>respond\<close> without positional arguments calls
  \<^verbatim>\<open>create_initial_response\<close> with the caller's keywords, less the reply and attachment
  keywords, and adds none: the \<^verbatim>\<open>response_type\<close> of the call is the caller's keyword, so
  when the caller gave none (content by keyword only), the call has no
  \<^verbatim>\<open>response_type\<close> at all, and no \<^verbatim>\<open>MESSAGE_CREATE\<close> default.
\<close>

theorem respond_first_call_no_positional:
  assumes "responses_slot self = []"
      and "respond env [] kwargs self w = (res, self', w')"
  shows "\<exists>kw. calls w' = calls w @ [Create_initial_response kw]
           \<and> kw = pop ''attachments'' (pop ''attachment''
                    (pop ''nonce'' (pop ''mentions_reply'' (pop ''reply'' kwargs))))
           \<and> map_of kw ''response_type'' = map_of kwargs ''response_type''
           \<and> (''response_type'' \<notin> fst ` set kwargs \<longrightarrow> ''response_type'' \<notin> fst ` set kw)"
proof -
  define kw where "kw = pop ''attachments'' (pop ''attachment''
                    (pop ''nonce'' (pop ''mentions_reply'' (pop ''reply'' kwargs))))"
  have same: "map_of kw ''response_type'' = map_of kwargs ''response_type''"
    by (simp add: kw_def map_of_pop)
  then have absent: "''response_type'' \<notin> fst ` set kwargs \<longrightarrow> ''response_type'' \<notin> fst ` set kw"
    by (simp add: key_in_iff)
  have "calls w' = calls w @ [Create_initial_response kw]"
    using assms(2) by (auto simp: respond_initial_unfold [OF assms(1)] Let_def kw_def split: sum.splits)
  then show ?thesis
    using same absent kw_def by blast
qed

theorem respond_first_call_no_positional_witness:
  "responses_slot fresh_context = []
   \<and> respond accepting_platform [] [(''content'', PyStr ''hello'')] fresh_context empty_world
       = (Inr 0, answered_context,
          \<lparr>heap = [\<lparr>message_slot = None, fetcher_slot = Some Fetch_initial_response\<rparr>],
           calls = [Create_initial_response [(''content'', PyStr ''hello'')]],
           tasks = []\<rparr>)"
proof -
  have h1: "responses_slot fresh_context = []"
    by (simp add: fresh_context_def)
  have h2: "respond accepting_platform [] [(''content'', PyStr ''hello'')] fresh_context empty_world
       = (Inr 0, answered_context,
          \<lparr>heap = [\<lparr>message_slot = None, fetcher_slot = Some Fetch_initial_response\<rparr>],
           calls = [Create_initial_response [(''content'', PyStr ''hello'')]],
           tasks = []\<rparr>)"
    by (simp add: respond_eval)
  show ?thesis
    using h1 h2 respond_first_call_no_positional [OF h1 h2]
    by simp
qed

end
